theory Spec2Isabelle
  imports Complex_Main
begin

section \<open>The location screen of the delivery application\<close>

text \<open>
  The development embeds the location-tracking logic of the first screen in
  \<^verbatim>\<open>src/app/(tabs)/location.tsx\<close> (lines 22 to 448): the React state of the
  screen, its two refs, and the part of the platform that the handlers talk to
  (watch subscriptions, timeouts, the clock and the location provider). Line
  numbers are those of that file. The handlers are repeated, with the same
  logic, in the screens that start at lines 1288 and 2035 of the file.

  An \<^verbatim>\<open>async\<close> handler runs up to its next \<^verbatim>\<open>await\<close> and goes on when the
  awaited provider call has settled; other handlers may run in between. The
  settled value is an argument of the part that goes on. Where a claim is
  about a handler alone, the parts are composed into the whole call.

  Numbers of the source that are only carried around (latitude, longitude,
  accuracy) are reals; no arithmetic is done on them. Times are milliseconds.
  An optional or nullable field is an \<open>option\<close>.
\<close>

subsection \<open>Data of the source\<close>

text \<open>\<^verbatim>\<open>interface LocationData\<close>, lines 7 to 13.\<close>

record LocationData =
  latitude :: real
  longitude :: real
  timestamp :: nat
  accuracy :: "real option"
  address :: "string option"

text \<open>\<^verbatim>\<open>interface LocationError\<close>, lines 15 to 18.\<close>

record LocationError =
  code :: string
  message :: string

text \<open>
  The fields of expo-location's \<^verbatim>\<open>LocationGeocodedAddress\<close> that
  \<^verbatim>\<open>formatAddress\<close> reads; each is a string or null.
\<close>

record LocationGeocodedAddress =
  name :: "string option"
  street :: "string option"
  district :: "string option"
  city :: "string option"
  region :: "string option"

text \<open>\<^verbatim>\<open>coords\<close> of the provider's \<^verbatim>\<open>LocationObject\<close>.\<close>

record Coords =
  coords_latitude :: real
  coords_longitude :: real
  coords_accuracy :: "real option"

text \<open>The settled value of an awaited promise.\<close>

datatype 'a outcome = Resolved 'a | Rejected

datatype PermissionStatus = granted | denied | undetermined

text \<open>The provider calls of the screen, logged in the order they are issued.\<close>

datatype ProviderCall =
  HasServicesEnabled
  | RequestForegroundPermissions
  | RequestBackgroundPermissions
  | GetCurrentPosition
  | WatchPosition
  | ReverseGeocode real real

text \<open>A pending \<^verbatim>\<open>setTimeout\<close>: its handle, when it is due, and the
  coordinates captured by the closure of line 128.\<close>

record Timer =
  tid :: nat
  due :: nat
  tlat :: real
  tlon :: real

text \<open>
  The screen: the \<^verbatim>\<open>useState\<close> cells (lines 23 to 33; of
  \<^verbatim>\<open>currentTask\<close> only \<^verbatim>\<open>startTime\<close> ever changes), the two refs
  (lines 35, 36), and the platform: the clock, the next fresh handle, the
  active watch subscriptions, the pending timeouts, and three logs (handles
  on which \<^verbatim>\<open>remove()\<close> was called, provider calls, titles of alerts).
\<close>

record Screen =
  location :: "LocationData option"
  isTracking :: bool
  isLoading :: bool
  error :: "LocationError option"
  startTime :: "nat option"
  locationSubscription :: "nat option"
  reverseGeocodeTimeout :: "nat option"
  now :: nat
  nextId :: nat
  watches :: "nat list"
  timers :: "Timer list"
  removed :: "nat list"
  calls :: "ProviderCall list"
  alerts :: "string list"

definition initial :: Screen where
  "initial = \<lparr>location = None, isTracking = False, isLoading = False, error = None,
     startTime = None, locationSubscription = None, reverseGeocodeTimeout = None,
     now = 0, nextId = 1, watches = [], timers = [], removed = [], calls = [],
     alerts = []\<rparr>"

subsection \<open>formatAddress (lines 158 to 168)\<close>

text \<open>JavaScript truthiness of a \<^verbatim>\<open>string | null\<close>: null and the empty string
  are falsy.\<close>

definition truthy :: "string option \<Rightarrow> bool" where
  "truthy x = (case x of None \<Rightarrow> False | Some s \<Rightarrow> s \<noteq> [])"

text \<open>\<^verbatim>\<open>if (x) parts.push(x)\<close>.\<close>

definition push_if :: "string option \<Rightarrow> string list \<Rightarrow> string list" where
  "push_if x parts = (case x of None \<Rightarrow> parts | Some s \<Rightarrow> if s \<noteq> [] then parts @ [s] else parts)"

text \<open>\<^verbatim>\<open>Array.prototype.join\<close>.\<close>

fun join :: "string \<Rightarrow> string list \<Rightarrow> string" where
  "join sep [] = []"
| "join sep [x] = x"
| "join sep (x # y # ys) = x @ sep @ join sep (y # ys)"

definition formatAddress :: "LocationGeocodedAddress \<Rightarrow> string" where
  "formatAddress a =
     (let parts = [];
          parts = push_if (name a) parts;
          parts = push_if (street a) parts;
          parts = push_if (district a) parts;
          parts = push_if (city a) parts;
          parts = push_if (region a) parts
      in if length parts > 0 then join '', '' parts else ''Unknown location'')"

text \<open>
  The wording of the specification, for comparison: the components that are
  present, in the order name, street, district, city, region, joined by a
  comma and a space; \<open>Unknown location\<close> when there is none. A component is
  present when the source's test \<^verbatim>\<open>if (address.x)\<close> passes.
\<close>

definition component :: "string option \<Rightarrow> string list" where
  "component x = (if truthy x then (case x of None \<Rightarrow> [] | Some s \<Rightarrow> [s]) else [])"

definition present_components :: "LocationGeocodedAddress \<Rightarrow> string list" where
  "present_components a =
     concat (map component [name a, street a, district a, city a, region a])"

definition formatAddress_spec :: "LocationGeocodedAddress \<Rightarrow> string" where
  "formatAddress_spec a =
     (if present_components a = [] then ''Unknown location''
      else join '', '' (present_components a))"

subsection \<open>Timeouts and watch subscriptions of the platform\<close>

text \<open>\<^verbatim>\<open>clearTimeout(h)\<close>: the timeout with that handle, if still pending, is
  dropped; otherwise nothing happens.\<close>

definition clearTimeout :: "nat \<Rightarrow> Screen \<Rightarrow> Screen" where
  "clearTimeout h w = w\<lparr>timers := filter (\<lambda>t. tid t \<noteq> h) (timers w)\<rparr>"

text \<open>\<^verbatim>\<open>setTimeout(f, delay)\<close> where \<open>f\<close> is the closure of line 128 over
  \<open>lat\<close> and \<open>lon\<close>: a fresh handle is returned with the new state.\<close>

definition setTimeout :: "real \<Rightarrow> real \<Rightarrow> nat \<Rightarrow> Screen \<Rightarrow> nat \<times> Screen" where
  "setTimeout lat lon delay w =
     (nextId w,
      w\<lparr>timers := timers w @ [\<lparr>tid = nextId w, due = now w + delay, tlat = lat, tlon = lon\<rparr>],
        nextId := Suc (nextId w)\<rparr>)"

text \<open>\<^verbatim>\<open>subscription.remove()\<close>: the watch is closed and the call is logged.\<close>

definition remove_subscription :: "nat \<Rightarrow> Screen \<Rightarrow> Screen" where
  "remove_subscription h w =
     w\<lparr>watches := filter (\<lambda>k. k \<noteq> h) (watches w), removed := removed w @ [h]\<rparr>"

text \<open>\<^verbatim>\<open>watchPositionAsync\<close> resolving: the platform has opened a watch and
  hands out its fresh handle.\<close>

definition open_watch :: "Screen \<Rightarrow> nat \<times> Screen" where
  "open_watch w =
     (nextId w, w\<lparr>watches := watches w @ [nextId w], nextId := Suc (nextId w)\<rparr>)"

definition provider_call :: "ProviderCall \<Rightarrow> Screen \<Rightarrow> Screen" where
  "provider_call c w = w\<lparr>calls := calls w @ [c]\<rparr>"

definition alert :: "string \<Rightarrow> Screen \<Rightarrow> Screen" where
  "alert title w = w\<lparr>alerts := alerts w @ [title]\<rparr>"

subsection \<open>reverseGeocode (lines 120 to 156)\<close>

text \<open>
  The body of \<^verbatim>\<open>reverseGeocode\<close> has no \<^verbatim>\<open>await\<close> of its own: a call
  runs lines 123 to 152 at once, clearing the timeout held by the ref and
  storing a new one due 1000 ms later.
\<close>

definition reverseGeocode :: "real \<Rightarrow> real \<Rightarrow> Screen \<Rightarrow> Screen" where
  "reverseGeocode lat lon w =
     (let w1 = (case reverseGeocodeTimeout w of None \<Rightarrow> w | Some h \<Rightarrow> clearTimeout h w);
          (h', w2) = setTimeout lat lon 1000 w1
      in w2\<lparr>reverseGeocodeTimeout := Some h'\<rparr>)"

text \<open>
  The timeout fires (line 128): it leaves the pending timeouts and the closure
  issues \<^verbatim>\<open>reverseGeocodeAsync\<close> with the coordinates it captured, then
  waits for the answer. The ref keeps the handle of the fired timeout.
\<close>

definition fireTimer :: "Timer \<Rightarrow> Screen \<Rightarrow> Screen" where
  "fireTimer t w =
     provider_call (ReverseGeocode (tlat t) (tlon t))
       (w\<lparr>timers := filter (\<lambda>u. tid u \<noteq> tid t) (timers w)\<rparr>)"

text \<open>\<^verbatim>\<open>setLocation(prev => prev ? {...prev, address: a} : null)\<close>,
  lines 139 to 142 and 147 to 150.\<close>

definition patch_address :: "string \<Rightarrow> Screen \<Rightarrow> Screen" where
  "patch_address a w =
     w\<lparr>location := (case location w of None \<Rightarrow> None | Some prev \<Rightarrow> Some (prev\<lparr>address := Some a\<rparr>))\<rparr>"

text \<open>
  The answer of the provider arrives (lines 130 to 151). A rejected call
  lands in the \<^verbatim>\<open>catch\<close> of line 144; a resolved one is tested by
  \<^verbatim>\<open>addresses && addresses.length > 0\<close>, which has no \<^verbatim>\<open>else\<close>.
\<close>

definition geocode_answer :: "LocationGeocodedAddress list outcome \<Rightarrow> Screen \<Rightarrow> Screen" where
  "geocode_answer r w =
     (case r of
        Rejected \<Rightarrow> patch_address ''Address unavailable'' w
      | Resolved addresses \<Rightarrow>
          (case addresses of
             [] \<Rightarrow> w
           | a # _ \<Rightarrow> patch_address (formatAddress a) w))"

subsection \<open>getCurrentLocation (lines 90 to 118)\<close>

text \<open>\<^verbatim>\<open>x || undefined\<close> on an accuracy that is a number or null: null and
  0 are falsy.\<close>

definition or_undefined :: "real option \<Rightarrow> real option" where
  "or_undefined x = (case x of None \<Rightarrow> None | Some v \<Rightarrow> if v = 0 then None else Some v)"

definition LOCATION_ERROR :: LocationError where
  "LOCATION_ERROR = \<lparr>code = ''LOCATION_ERROR'',
     message = ''Failed to get current location. Please check your GPS signal.''\<rparr>"

text \<open>Lines 91 to 93, up to the \<^verbatim>\<open>await\<close>.\<close>

definition getCurrentLocation_begin :: "Screen \<Rightarrow> Screen" where
  "getCurrentLocation_begin w = provider_call GetCurrentPosition (w\<lparr>isLoading := True\<rparr>)"

text \<open>Lines 98 to 117, from the settled \<^verbatim>\<open>getCurrentPositionAsync\<close> on. The
  new \<^verbatim>\<open>LocationData\<close> has no address.\<close>

definition getCurrentLocation_resume :: "Coords outcome \<Rightarrow> Screen \<Rightarrow> Screen" where
  "getCurrentLocation_resume r w =
     (case r of
        Rejected \<Rightarrow> w\<lparr>error := Some LOCATION_ERROR, isLoading := False\<rparr>
      | Resolved c \<Rightarrow>
          (let locationData = \<lparr>latitude = coords_latitude c, longitude = coords_longitude c,
                 timestamp = now w, accuracy = or_undefined (coords_accuracy c),
                 address = None\<rparr>;
               w1 = w\<lparr>location := Some locationData\<rparr>;
               w2 = reverseGeocode (latitude locationData) (longitude locationData) w1
           in w2\<lparr>isLoading := False\<rparr>))"

text \<open>The whole call, when nothing else runs while it waits.\<close>

definition getCurrentLocation :: "Coords outcome \<Rightarrow> Screen \<Rightarrow> Screen" where
  "getCurrentLocation r w = getCurrentLocation_resume r (getCurrentLocation_begin w)"

subsection \<open>requestLocationPermission (lines 50 to 88)\<close>

definition LOCATION_DISABLED :: LocationError where
  "LOCATION_DISABLED = \<lparr>code = ''LOCATION_DISABLED'',
     message = ''Location services are disabled. Please enable them in your device settings.''\<rparr>"

definition PERMISSION_DENIED :: LocationError where
  "PERMISSION_DENIED = \<lparr>code = ''PERMISSION_DENIED'',
     message = ''Location permission denied. Please grant location access to use this feature.''\<rparr>"

definition PERMISSION_ERROR :: LocationError where
  "PERMISSION_ERROR = \<lparr>code = ''PERMISSION_ERROR'',
     message = ''Failed to request location permissions. Please try again.''\<rparr>"

text \<open>Lines 51 to 56, up to the first \<^verbatim>\<open>await\<close>.\<close>

definition requestLocationPermission_begin :: "Screen \<Rightarrow> Screen" where
  "requestLocationPermission_begin w =
     provider_call HasServicesEnabled (w\<lparr>isLoading := True, error := None\<rparr>)"

text \<open>The \<^verbatim>\<open>catch\<close> of line 79 followed by the \<^verbatim>\<open>finally\<close> of line 85.\<close>

definition requestLocationPermission_catch :: "Screen \<Rightarrow> Screen" where
  "requestLocationPermission_catch w = w\<lparr>error := Some PERMISSION_ERROR, isLoading := False\<rparr>"

text \<open>
  The whole call, when nothing else runs while it waits. The three arguments
  are the settled values of the three awaited provider calls; one that is
  never reached is not looked at.
\<close>

definition requestLocationPermission ::
  "bool outcome \<Rightarrow> PermissionStatus outcome \<Rightarrow> Coords outcome \<Rightarrow> Screen \<Rightarrow> Screen" where
  "requestLocationPermission services foreground fix w =
     (let w1 = requestLocationPermission_begin w in
      case services of
        Rejected \<Rightarrow> requestLocationPermission_catch w1
      | Resolved isLocationEnabled \<Rightarrow>
          if \<not> isLocationEnabled
          then (w1\<lparr>error := Some LOCATION_DISABLED, isLoading := False\<rparr>)\<lparr>isLoading := False\<rparr>
          else
            (let w2 = provider_call RequestForegroundPermissions w1 in
             case foreground of
               Rejected \<Rightarrow> requestLocationPermission_catch w2
             | Resolved status \<Rightarrow>
                 if status \<noteq> granted
                 then (w2\<lparr>error := Some PERMISSION_DENIED, isLoading := False\<rparr>)\<lparr>isLoading := False\<rparr>
                 else (getCurrentLocation fix w2)\<lparr>isLoading := False\<rparr>))"

subsection \<open>startLocationTracking (lines 170 to 221)\<close>

definition TRACKING_ERROR :: LocationError where
  "TRACKING_ERROR = \<lparr>code = ''TRACKING_ERROR'',
     message = ''Failed to start location tracking. Please try again.''\<rparr>"

text \<open>The \<^verbatim>\<open>catch\<close> of lines 213 to 220.\<close>

definition startLocationTracking_catch :: "Screen \<Rightarrow> Screen" where
  "startLocationTracking_catch w = w\<lparr>error := Some TRACKING_ERROR, isTracking := False\<rparr>"

text \<open>Lines 171 to 175, up to the first \<^verbatim>\<open>await\<close>. There is no test of
  \<^verbatim>\<open>isTracking\<close> or of the ref.\<close>

definition startLocationTracking_begin :: "Screen \<Rightarrow> Screen" where
  "startLocationTracking_begin w = provider_call RequestBackgroundPermissions (w\<lparr>error := None\<rparr>)"

text \<open>Lines 176 to 188, from the settled permission request up to the second
  \<^verbatim>\<open>await\<close>.\<close>

definition startLocationTracking_permitted :: "PermissionStatus outcome \<Rightarrow> Screen \<Rightarrow> Screen" where
  "startLocationTracking_permitted r w =
     (case r of
        Rejected \<Rightarrow> startLocationTracking_catch w
      | Resolved status \<Rightarrow>
          (let w1 = (if status \<noteq> granted then alert ''Background Location'' w else w);
               w2 = w1\<lparr>isTracking := True, startTime := Some (now w1)\<rparr>
           in provider_call WatchPosition w2))"

text \<open>Lines 188 and 212, from the settled \<^verbatim>\<open>watchPositionAsync\<close> on: the
  handle is stored in the ref, whatever the ref held.\<close>

definition startLocationTracking_watching :: "unit outcome \<Rightarrow> Screen \<Rightarrow> Screen" where
  "startLocationTracking_watching r w =
     (case r of
        Rejected \<Rightarrow> startLocationTracking_catch w
      | Resolved _ \<Rightarrow>
          (let (h, w1) = open_watch w
           in alert ''Tracking Started'' (w1\<lparr>locationSubscription := Some h\<rparr>)))"

text \<open>The whole call, when nothing else runs while it waits. A rejected
  permission request ends it before the watch is asked for.\<close>

definition startLocationTracking :: "PermissionStatus outcome \<Rightarrow> unit outcome \<Rightarrow> Screen \<Rightarrow> Screen" where
  "startLocationTracking background watch w =
     (let w1 = startLocationTracking_permitted background (startLocationTracking_begin w)
      in case background of
           Rejected \<Rightarrow> w1
         | Resolved _ \<Rightarrow> startLocationTracking_watching watch w1)"

text \<open>The callback given to \<^verbatim>\<open>watchPositionAsync\<close>, lines 194 to 209.\<close>

definition watchCallback :: "Coords \<Rightarrow> Screen \<Rightarrow> Screen" where
  "watchCallback c w =
     (let locationData = \<lparr>latitude = coords_latitude c, longitude = coords_longitude c,
            timestamp = now w, accuracy = or_undefined (coords_accuracy c), address = None\<rparr>;
          w1 = w\<lparr>location := Some (locationData\<lparr>address :=
                  (case location w of None \<Rightarrow> None | Some prev \<Rightarrow> address prev)\<rparr>)\<rparr>
      in reverseGeocode (latitude locationData) (longitude locationData) w1)"

subsection \<open>stopLocationTracking and the unmount cleanup (lines 223 to 235, 42 to 47)\<close>

definition stopLocationTracking :: "Screen \<Rightarrow> Screen" where
  "stopLocationTracking w =
     (let w1 = (case locationSubscription w of
                  None \<Rightarrow> w
                | Some h \<Rightarrow> (remove_subscription h w)\<lparr>locationSubscription := None\<rparr>);
          w2 = (case reverseGeocodeTimeout w1 of
                  None \<Rightarrow> w1
                | Some t \<Rightarrow> (clearTimeout t w1)\<lparr>reverseGeocodeTimeout := None\<rparr>)
      in w2\<lparr>isTracking := False\<rparr>)"

text \<open>The function returned by the effect of line 38, run when the screen
  unmounts.\<close>

definition cleanup :: "Screen \<Rightarrow> Screen" where
  "cleanup w =
     (let w1 = stopLocationTracking w
      in case reverseGeocodeTimeout w1 of None \<Rightarrow> w1 | Some t \<Rightarrow> clearTimeout t w1)"

text \<open>Lines 237 to 244.\<close>

definition handleStopTracking :: "Screen \<Rightarrow> Screen" where
  "handleStopTracking w = alert ''Tracking Stopped'' (stopLocationTracking w)"

text \<open>Lines 246 to 268; \<open>confirm\<close> is the button the user picks in the dialog.\<close>

definition completeDelivery :: "bool \<Rightarrow> Screen \<Rightarrow> Screen" where
  "completeDelivery confirm w =
     (case location w of
        None \<Rightarrow> alert ''Error'' w
      | Some _ \<Rightarrow>
          (let w1 = alert ''Complete Delivery'' w
           in if confirm then alert ''Success'' (stopLocationTracking w1) else w1))"

subsection \<open>The clock\<close>

text \<open>
  Time passes: the clock moves on by \<open>dt\<close> milliseconds and every timeout that
  is due by then fires, oldest first. All timeouts of the screen have the
  same delay, so the order of the list is the order in which they are due.
\<close>

definition advance :: "nat \<Rightarrow> Screen \<Rightarrow> Screen" where
  "advance dt w =
     (let w1 = w\<lparr>now := now w + dt\<rparr>
      in fold fireTimer (filter (\<lambda>t. due t \<le> now w1) (timers w1)) w1)"

text \<open>A burst of position updates: each arrives \<open>dt\<close> milliseconds after the
  one before and runs the watch callback.\<close>

fun updates :: "(nat \<times> Coords) list \<Rightarrow> Screen \<Rightarrow> Screen" where
  "updates [] w = w"
| "updates ((dt, c) # us) w = updates us (watchCallback c (advance dt w))"

text \<open>The \<^verbatim>\<open>reverseGeocodeAsync\<close> calls in a log of provider calls.\<close>

fun geocode_calls :: "ProviderCall list \<Rightarrow> (real \<times> real) list" where
  "geocode_calls [] = []"
| "geocode_calls (ReverseGeocode lat lon # cs) = (lat, lon) # geocode_calls cs"
| "geocode_calls (_ # cs) = geocode_calls cs"

subsection \<open>The controls of the screen (lines 320 to 444)\<close>

text \<open>
  What the user and the platform can do to a mounted screen, each handler
  running to its end before the next event. The controls are those of the
  rendered tree: Retry is there while an error is shown (line 321); the
  primary button starts tracking while \<^verbatim>\<open>isTracking\<close> is false, unless
  disabled by loading or an error (lines 409 to 413), and stops it otherwise
  (line 419); Complete is disabled without a location (line 428); Refresh
  is disabled while loading (line 437). A position is delivered only for an
  open watch.
\<close>

datatype Event =
  Mount "bool outcome" "PermissionStatus outcome" "Coords outcome"
  | PressRetry "bool outcome" "PermissionStatus outcome" "Coords outcome"
  | PressPrimary "PermissionStatus outcome" "unit outcome"
  | PressComplete bool
  | PressRefresh "Coords outcome"
  | Position nat Coords
  | Elapse nat
  | GeocodeAnswer "LocationGeocodedAddress list outcome"

definition handle :: "Event \<Rightarrow> Screen \<Rightarrow> Screen" where
  "handle e w =
     (case e of
        Mount sv fg fix \<Rightarrow> requestLocationPermission sv fg fix w
      | PressRetry sv fg fix \<Rightarrow>
          (if error w \<noteq> None then requestLocationPermission sv fg fix w else w)
      | PressPrimary bg wt \<Rightarrow>
          (if \<not> isTracking w
           then (if isLoading w \<or> error w \<noteq> None then w else startLocationTracking bg wt w)
           else handleStopTracking w)
      | PressComplete confirm \<Rightarrow>
          (if location w = None then w else completeDelivery confirm w)
      | PressRefresh fix \<Rightarrow> (if isLoading w then w else getCurrentLocation fix w)
      | Position h c \<Rightarrow> (if h \<in> set (watches w) then watchCallback c w else w)
      | Elapse dt \<Rightarrow> advance dt w
      | GeocodeAnswer r \<Rightarrow> geocode_answer r w)"

definition run :: "Event list \<Rightarrow> Screen \<Rightarrow> Screen" where
  "run es w = fold handle es w"

text \<open>The platform's open watches are exactly the handle held by the ref,
  and the ref is empty while \<^verbatim>\<open>isTracking\<close> is false.\<close>

definition one_session :: "Screen \<Rightarrow> bool" where
  "one_session w =
     (watches w = (case locationSubscription w of None \<Rightarrow> [] | Some h \<Rightarrow> [h])
      \<and> (isTracking w \<or> locationSubscription w = None))"

text \<open>Every pending timeout is the one whose handle the ref holds, and
  there is at most one.\<close>

definition one_timer :: "Screen \<Rightarrow> bool" where
  "one_timer w =
     (length (timers w) \<le> 1
      \<and> list_all (\<lambda>t. reverseGeocodeTimeout w = Some (tid t)) (timers w))"

text \<open>The coordinates of the last update of a burst that starts with \<open>c0\<close>.\<close>

fun last_update :: "Coords \<Rightarrow> (nat \<times> Coords) list \<Rightarrow> Coords" where
  "last_update c0 [] = c0"
| "last_update c0 ((dt, c) # us) = last_update c us"

text \<open>Exactly one timeout is pending, due at \<open>d\<close> for the coordinates
  \<open>lat\<close>, \<open>lon\<close>, and the ref holds its handle.\<close>

definition pending_at :: "nat \<Rightarrow> real \<Rightarrow> real \<Rightarrow> Screen \<Rightarrow> bool" where
  "pending_at d lat lon w =
     (case timers w of
        [t] \<Rightarrow> due t = d \<and> tlat t = lat \<and> tlon t = lon \<and> reverseGeocodeTimeout w = Some (tid t)
      | _ \<Rightarrow> False)"

text \<open>The part of the screen that the tracking session lives in.\<close>

definition session :: "Screen \<Rightarrow> nat list \<times> nat option \<times> bool" where
  "session w = (watches w, locationSubscription w, isTracking w)"

section \<open>Proofs\<close>

lemmas platform_defs = clearTimeout_def setTimeout_def remove_subscription_def open_watch_def
  provider_call_def alert_def

lemmas geocode_defs = reverseGeocode_def patch_address_def geocode_answer_def fireTimer_def

lemmas fix_defs = getCurrentLocation_begin_def getCurrentLocation_resume_def
  getCurrentLocation_def or_undefined_def

lemmas permission_defs = requestLocationPermission_begin_def requestLocationPermission_catch_def
  requestLocationPermission_def

lemmas tracking_defs = startLocationTracking_catch_def startLocationTracking_begin_def
  startLocationTracking_permitted_def startLocationTracking_watching_def
  startLocationTracking_def

subsection \<open>The debounce of reverseGeocode\<close>

lemma one_timer_cases:
  "one_timer w \<Longrightarrow> timers w = [] \<or> (\<exists>t. timers w = [t] \<and> reverseGeocodeTimeout w = Some (tid t))"
  by (cases "timers w" rule: list.exhaust; cases "tl (timers w)"; auto simp: one_timer_def)

lemma reverseGeocode_timers:
  assumes "one_timer w"
  shows "timers (reverseGeocode lat lon w) = [\<lparr>tid = nextId w, due = now w + 1000, tlat = lat, tlon = lon\<rparr>]"
  using one_timer_cases [OF assms]
  by (auto simp: reverseGeocode_def platform_defs Let_def split: option.splits)

lemma watchCallback_pending:
  assumes "one_timer w"
  shows "pending_at (now w + 1000) (coords_latitude c) (coords_longitude c) (watchCallback c w)"
proof -
  let ?v = "w\<lparr>location := location (watchCallback c w)\<rparr>"
  have v: "one_timer ?v" using assms by (simp add: one_timer_def)
  have "watchCallback c w = reverseGeocode (coords_latitude c) (coords_longitude c) ?v"
    by (simp add: watchCallback_def Let_def reverseGeocode_def platform_defs split: option.splits)
  moreover have "pending_at (now ?v + 1000) (coords_latitude c) (coords_longitude c)
     (reverseGeocode (coords_latitude c) (coords_longitude c) ?v)"
    unfolding pending_at_def reverseGeocode_timers [OF v]
    by (simp add: reverseGeocode_def platform_defs Let_def split: option.splits)
  ultimately show ?thesis by simp
qed

lemma watchCallback_calls: "calls (watchCallback c w) = calls w"
  by (simp add: watchCallback_def Let_def reverseGeocode_def platform_defs split: option.splits)

lemma watchCallback_now: "now (watchCallback c w) = now w"
  by (simp add: watchCallback_def Let_def reverseGeocode_def platform_defs split: option.splits)

lemma pending_at_timers:
  "pending_at d lat lon w \<Longrightarrow> \<exists>t. timers w = [t] \<and> due t = d \<and> tlat t = lat \<and> tlon t = lon
     \<and> reverseGeocodeTimeout w = Some (tid t)"
  by (auto simp: pending_at_def split: list.splits)

lemma pending_at_now [simp]: "pending_at d lat lon (w\<lparr>now := n\<rparr>) = pending_at d lat lon w"
  by (simp add: pending_at_def split: list.splits)

lemma advance_early:
  assumes "pending_at d lat lon w" and "now w + dt < d"
  shows "advance dt w = w\<lparr>now := now w + dt\<rparr>"
  using pending_at_timers [OF assms(1)] assms(2)
  by (auto simp: advance_def Let_def)

lemma advance_late:
  assumes "pending_at d lat lon w" and "d \<le> now w + dt"
  shows "advance dt w = w\<lparr>now := now w + dt, timers := [], calls := calls w @ [ReverseGeocode lat lon]\<rparr>"
  using pending_at_timers [OF assms(1)] assms(2)
  by (auto simp: advance_def Let_def fireTimer_def provider_call_def)

lemma advance_idle:
  assumes "timers w = []"
  shows "advance dt w = w\<lparr>now := now w + dt\<rparr>"
  using assms by (simp add: advance_def Let_def)

lemma pending_at_one_timer: "pending_at d lat lon w \<Longrightarrow> one_timer w"
  by (auto simp: one_timer_def dest: pending_at_timers)

lemma elapse_idle:
  "timers w = [] \<Longrightarrow> calls (fold advance dts w) = calls w"
proof (induction dts arbitrary: w)
  case Nil
  then show ?case by simp
next
  case (Cons dt dts)
  have "advance dt w = w\<lparr>now := now w + dt\<rparr>" by (rule advance_idle [OF Cons.prems])
  moreover have "timers (w\<lparr>now := now w + dt\<rparr>) = []" using Cons.prems by simp
  ultimately show ?case using Cons.IH [of "w\<lparr>now := now w + dt\<rparr>"] by simp
qed

lemma elapse_pending:
  "pending_at d lat lon w \<Longrightarrow> now w < d \<Longrightarrow>
   calls (fold advance dts w) =
     calls w @ (if d \<le> now w + sum_list dts then [ReverseGeocode lat lon] else [])"
proof (induction dts arbitrary: w)
  case Nil
  then show ?case by simp
next
  case (Cons dt dts)
  show ?case
  proof (cases "d \<le> now w + dt")
    case True
    let ?v = "w\<lparr>now := now w + dt, timers := [], calls := calls w @ [ReverseGeocode lat lon]\<rparr>"
    have "advance dt w = ?v" by (rule advance_late [OF Cons.prems(1) True])
    moreover have "calls (fold advance dts ?v) = calls ?v" by (rule elapse_idle) simp
    ultimately show ?thesis using True by simp
  next
    case False
    let ?v = "w\<lparr>now := now w + dt\<rparr>"
    have a: "advance dt w = ?v" using advance_early [OF Cons.prems(1)] False by simp
    have "pending_at d lat lon ?v" using Cons.prems(1) by simp
    moreover have "now ?v < d" using False by simp
    ultimately have "calls (fold advance dts ?v) =
       calls ?v @ (if d \<le> now ?v + sum_list dts then [ReverseGeocode lat lon] else [])"
      by (rule Cons.IH)
    with a show ?thesis by (simp add: add.assoc)
  qed
qed

lemma burst:
  "one_timer w \<Longrightarrow> list_all (\<lambda>(dt, c). dt < 1000) us \<Longrightarrow>
   calls (updates us (watchCallback c0 w)) = calls w
   \<and> pending_at (now (updates us (watchCallback c0 w)) + 1000)
        (coords_latitude (last_update c0 us)) (coords_longitude (last_update c0 us))
        (updates us (watchCallback c0 w))"
proof (induction us arbitrary: w c0)
  case Nil
  then show ?case
    using watchCallback_pending [of w c0] by (simp add: watchCallback_calls watchCallback_now)
next
  case (Cons u us)
  obtain dt c where u: "u = (dt, c)" by (cases u)
  let ?w0 = "watchCallback c0 w"
  let ?v = "?w0\<lparr>now := now ?w0 + dt\<rparr>"
  from Cons.prems u have dt: "dt < 1000" and rest: "list_all (\<lambda>(dt, c). dt < 1000) us"
    by simp_all
  have p: "pending_at (now ?w0 + 1000) (coords_latitude c0) (coords_longitude c0) ?w0"
    using watchCallback_pending [OF Cons.prems(1), of c0] by (simp add: watchCallback_now)
  have adv: "advance dt ?w0 = ?v" using advance_early [OF p] dt by simp
  have "pending_at (now ?w0 + 1000) (coords_latitude c0) (coords_longitude c0) ?v"
    using p by simp
  then have v: "one_timer ?v" by (rule pending_at_one_timer)
  from Cons.IH [OF v rest, of c] adv u show ?case
    by (simp add: watchCallback_calls)
qed

text \<open>
  Claim C2. Reverse geocoding is debounced with a window of 1000 ms. Take a
  screen with at most one pending timeout, the one of the ref, and a burst of
  position updates: \<open>c0\<close>, then the updates \<open>us\<close>, each less than 1000 ms
  after the one before. During the burst no provider call is issued; at its
  end exactly one timeout is pending, the one of the ref; and however time
  passes afterwards (the steps \<open>dts\<close>), the calls issued since the burst began
  are none while less than 1000 ms have passed, and then the single call
  \<^verbatim>\<open>reverseGeocodeAsync\<close> with the coordinates of the last update.
\<close>

theorem debounce_one_call_last_coordinates:
  assumes "one_timer w" and "list_all (\<lambda>(dt, c). dt < 1000) us"
  shows "calls (updates us (watchCallback c0 w)) = calls w
     \<and> one_timer (updates us (watchCallback c0 w))
     \<and> length (timers (updates us (watchCallback c0 w))) = 1
     \<and> calls (fold advance dts (updates us (watchCallback c0 w))) =
         calls w @ (if 1000 \<le> sum_list dts
                    then [ReverseGeocode (coords_latitude (last_update c0 us))
                            (coords_longitude (last_update c0 us))]
                    else [])"
proof -
  let ?w' = "updates us (watchCallback c0 w)"
  let ?c = "last_update c0 us"
  from burst [OF assms, of c0]
  have c: "calls ?w' = calls w"
    and p: "pending_at (now ?w' + 1000) (coords_latitude ?c) (coords_longitude ?c) ?w'"
    by simp_all
  from p have o: "one_timer ?w'" by (rule pending_at_one_timer)
  from pending_at_timers [OF p] have l: "length (timers ?w') = 1" by auto
  have "calls (fold advance dts ?w') =
      calls ?w' @ (if now ?w' + 1000 \<le> now ?w' + sum_list dts
                   then [ReverseGeocode (coords_latitude ?c) (coords_longitude ?c)] else [])"
    by (rule elapse_pending [OF p]) simp
  with c o l show ?thesis by simp
qed

theorem debounce_one_call_last_coordinates_witness:
  "one_timer initial
   \<and> list_all (\<lambda>(dt, c). dt < 1000)
       [(400::nat, \<lparr>coords_latitude = 40, coords_longitude = -73, coords_accuracy = Some 5\<rparr>),
        (999, \<lparr>coords_latitude = 41, coords_longitude = -74, coords_accuracy = None\<rparr>)]
   \<and> calls (fold advance [500, 600]
        (updates
          [(400, \<lparr>coords_latitude = 40, coords_longitude = -73, coords_accuracy = Some 5\<rparr>),
           (999, \<lparr>coords_latitude = 41, coords_longitude = -74, coords_accuracy = None\<rparr>)]
          (watchCallback \<lparr>coords_latitude = 39, coords_longitude = -72, coords_accuracy = Some 0\<rparr>
             initial))) = [ReverseGeocode 41 (-74)]"
  using debounce_one_call_last_coordinates [of initial
      "[(400, \<lparr>coords_latitude = 40, coords_longitude = -73, coords_accuracy = Some 5\<rparr>),
        (999, \<lparr>coords_latitude = 41, coords_longitude = -74, coords_accuracy = None\<rparr>)]"
      "\<lparr>coords_latitude = 39, coords_longitude = -72, coords_accuracy = Some 0\<rparr>"
      "[500, 600]"]
  by (simp add: one_timer_def initial_def)

subsection \<open>formatAddress\<close>

lemma push_if_component: "push_if x parts = parts @ component x"
  by (simp add: push_if_def component_def truthy_def split: option.splits)

text \<open>
  Claim C9. The formatted address is the join, with a comma and a space, of
  the components that are present, in the order name, street, district, city,
  region, and \<open>Unknown location\<close> when none is present; a street
  \<open>Main St\<close> and a city \<open>Springfield\<close> alone give \<open>Main St, Springfield\<close>.
  Present means that the test of the source passes: the component is neither
  null nor the empty string.
\<close>

theorem formatAddress_joins_present_components:
  "formatAddress a = formatAddress_spec a
   \<and> formatAddress \<lparr>name = None, street = Some ''Main St'', district = None,
        city = Some ''Springfield'', region = None\<rparr> = ''Main St, Springfield''
   \<and> formatAddress \<lparr>name = None, street = None, district = None, city = None, region = None\<rparr>
       = ''Unknown location''"
  by (simp add: formatAddress_def formatAddress_spec_def present_components_def
      push_if_component component_def truthy_def Let_def)

theorem formatAddress_joins_present_components_witness:
  "formatAddress \<lparr>name = Some ''Depot'', street = Some '''', district = None,
        city = Some ''Springfield'', region = Some ''IL''\<rparr> = ''Depot, Springfield, IL''"
  using formatAddress_joins_present_components
    [of "\<lparr>name = Some ''Depot'', street = Some '''', district = None,
        city = Some ''Springfield'', region = Some ''IL''\<rparr>"]
  by (simp add: formatAddress_spec_def present_components_def component_def truthy_def)

subsection \<open>stopLocationTracking\<close>

lemma stopLocationTracking_twice:
  "stopLocationTracking (stopLocationTracking w) = stopLocationTracking w"
  by (simp add: stopLocationTracking_def platform_defs Let_def split: option.splits)

lemma stopLocationTracking_removed:
  "removed (stopLocationTracking w) =
     removed w @ (case locationSubscription w of None \<Rightarrow> [] | Some h \<Rightarrow> [h])"
  by (simp add: stopLocationTracking_def platform_defs Let_def split: option.splits)

lemma stopLocationTracking_watches:
  "watches (stopLocationTracking w) =
     (case locationSubscription w of None \<Rightarrow> watches w
      | Some h \<Rightarrow> filter (\<lambda>k. k \<noteq> h) (watches w))"
  by (simp add: stopLocationTracking_def platform_defs Let_def split: option.splits)

lemma stopLocationTracking_timers:
  "timers (stopLocationTracking w) =
     (case reverseGeocodeTimeout w of None \<Rightarrow> timers w
      | Some h \<Rightarrow> filter (\<lambda>t. tid t \<noteq> h) (timers w))"
  by (simp add: stopLocationTracking_def platform_defs Let_def split: option.splits)

lemma stopLocationTracking_cells:
  "locationSubscription (stopLocationTracking w) = None
   \<and> reverseGeocodeTimeout (stopLocationTracking w) = None
   \<and> isTracking (stopLocationTracking w) = False"
  by (simp add: stopLocationTracking_def platform_defs Let_def split: option.splits)

lemma stopLocationTracking_no_timer:
  assumes "one_timer w"
  shows "timers (stopLocationTracking w) = []"
  using one_timer_cases [OF assms]
  by (auto simp: stopLocationTracking_timers split: option.splits)

text \<open>
  Claim C4. Stopping is idempotent. In every state a second call of
  \<^verbatim>\<open>stopLocationTracking\<close> changes nothing, so it releases nothing again: the
  handle held by the ref is released exactly once, and when the ref holds no
  handle nothing is released and no watch is touched. After any call the ref
  of the subscription and the ref of the timeout are empty, the timeout that
  the ref held is no longer pending (no timeout at all is, when the ref's was
  the only one), and \<^verbatim>\<open>isTracking\<close> is false. The function has no failing
  branch.
\<close>

theorem stopLocationTracking_idempotent:
  "stopLocationTracking (stopLocationTracking w) = stopLocationTracking w
   \<and> removed (stopLocationTracking w) =
       removed w @ (case locationSubscription w of None \<Rightarrow> [] | Some h \<Rightarrow> [h])
   \<and> (locationSubscription w = None \<longrightarrow> removed (stopLocationTracking w) = removed w
        \<and> watches (stopLocationTracking w) = watches w)
   \<and> locationSubscription (stopLocationTracking w) = None
   \<and> reverseGeocodeTimeout (stopLocationTracking w) = None
   \<and> list_all (\<lambda>t. reverseGeocodeTimeout w \<noteq> Some (tid t)) (timers (stopLocationTracking w))
   \<and> (one_timer w \<longrightarrow> timers (stopLocationTracking w) = [])
   \<and> isTracking (stopLocationTracking w) = False"
proof -
  have "list_all (\<lambda>t. reverseGeocodeTimeout w \<noteq> Some (tid t)) (timers (stopLocationTracking w))"
    by (auto simp: stopLocationTracking_timers list_all_iff split: option.splits)
  then show ?thesis
    using stopLocationTracking_twice [of w] stopLocationTracking_removed [of w]
      stopLocationTracking_watches [of w] stopLocationTracking_cells [of w]
      stopLocationTracking_no_timer [of w]
    by simp
qed

theorem stopLocationTracking_idempotent_witness:
  "stopLocationTracking (stopLocationTracking
       (watchCallback \<lparr>coords_latitude = 40, coords_longitude = -73, coords_accuracy = Some 5\<rparr>
          (startLocationTracking (Resolved granted) (Resolved ()) initial)))
     = stopLocationTracking
       (watchCallback \<lparr>coords_latitude = 40, coords_longitude = -73, coords_accuracy = Some 5\<rparr>
          (startLocationTracking (Resolved granted) (Resolved ()) initial))
   \<and> removed (stopLocationTracking (stopLocationTracking
       (watchCallback \<lparr>coords_latitude = 40, coords_longitude = -73, coords_accuracy = Some 5\<rparr>
          (startLocationTracking (Resolved granted) (Resolved ()) initial)))) = [1]
   \<and> timers (stopLocationTracking
       (watchCallback \<lparr>coords_latitude = 40, coords_longitude = -73, coords_accuracy = Some 5\<rparr>
          (startLocationTracking (Resolved granted) (Resolved ()) initial))) = []
   \<and> locationSubscription initial = None
   \<and> one_timer initial
   \<and> removed (stopLocationTracking initial) = []
   \<and> stopLocationTracking initial = initial"
  using stopLocationTracking_idempotent
    [of "watchCallback \<lparr>coords_latitude = 40, coords_longitude = -73, coords_accuracy = Some 5\<rparr>
          (startLocationTracking (Resolved granted) (Resolved ()) initial)"]
    stopLocationTracking_idempotent [of initial]
  by (simp add: initial_def one_timer_def stopLocationTracking_def watchCallback_def
      geocode_defs tracking_defs platform_defs or_undefined_def Let_def)

subsection \<open>getCurrentLocation and requestLocationPermission\<close>

text \<open>
  Claim C5. When the screen holds a position and \<^verbatim>\<open>getCurrentPositionAsync\<close>
  fails, \<^verbatim>\<open>getCurrentLocation\<close> sets the error \<open>LOCATION_ERROR\<close>, whose message
  asks to check the GPS signal, and the position held before is still there,
  unchanged: neither the part before the wait nor the part after it touches
  \<^verbatim>\<open>location\<close>.
\<close>

theorem getCurrentLocation_failure_keeps_location:
  assumes "location w = Some p"
  shows "location (getCurrentLocation Rejected w) = Some p
     \<and> error (getCurrentLocation Rejected w) = Some LOCATION_ERROR
     \<and> location (getCurrentLocation_begin w) = Some p
     \<and> location (getCurrentLocation_resume Rejected w) = Some p
     \<and> error (getCurrentLocation_resume Rejected w) = Some LOCATION_ERROR
     \<and> code LOCATION_ERROR = ''LOCATION_ERROR''
     \<and> message LOCATION_ERROR = ''Failed to get current location. Please check your GPS signal.''"
  using assms by (simp add: fix_defs platform_defs LOCATION_ERROR_def)

theorem getCurrentLocation_failure_keeps_location_witness:
  "location (getCurrentLocation Rejected
      (getCurrentLocation (Resolved \<lparr>coords_latitude = 40, coords_longitude = -73,
         coords_accuracy = Some 5\<rparr>) initial))
     = Some \<lparr>latitude = 40, longitude = -73, timestamp = 0, accuracy = Some 5, address = None\<rparr>
   \<and> error (getCurrentLocation Rejected
      (getCurrentLocation (Resolved \<lparr>coords_latitude = 40, coords_longitude = -73,
         coords_accuracy = Some 5\<rparr>) initial)) = Some LOCATION_ERROR"
  using getCurrentLocation_failure_keeps_location
    [of "getCurrentLocation (Resolved \<lparr>coords_latitude = 40, coords_longitude = -73,
         coords_accuracy = Some 5\<rparr>) initial"
        "\<lparr>latitude = 40, longitude = -73, timestamp = 0, accuracy = Some 5, address = None\<rparr>"]
  by (simp add: initial_def fix_defs geocode_defs platform_defs Let_def)

lemma reverseGeocode_location: "location (reverseGeocode lat lon w) = location w"
  by (simp add: geocode_defs platform_defs Let_def split: option.splits)

lemma reverseGeocode_error: "error (reverseGeocode lat lon w) = error w"
  by (simp add: geocode_defs platform_defs Let_def split: option.splits)

lemma reverseGeocode_calls: "calls (reverseGeocode lat lon w) = calls w"
  by (simp add: geocode_defs platform_defs Let_def split: option.splits)

lemma getCurrentLocation_calls:
  "calls (getCurrentLocation fix w) = calls w @ [GetCurrentPosition]"
  by (simp add: fix_defs platform_defs reverseGeocode_calls Let_def split: outcome.splits)

lemma getCurrentLocation_error:
  "error (getCurrentLocation (Resolved c) w) = error w"
  by (simp add: fix_defs platform_defs reverseGeocode_error Let_def)

text \<open>
  Claim C7. \<^verbatim>\<open>requestLocationPermission\<close> asks first whether the location
  service is enabled. If it is not, the error is \<open>LOCATION_DISABLED\<close> and the
  foreground permission is never requested. If it is and the permission is
  not granted, the error is \<open>PERMISSION_DENIED\<close>, the position is what it was
  before the call (so it stays unset when it was unset), and no position is
  requested. If the permission is granted the call goes on with
  \<^verbatim>\<open>getCurrentLocation\<close>.
\<close>

theorem requestLocationPermission_order_and_failures:
  "error (requestLocationPermission (Resolved False) foreground fix w) = Some LOCATION_DISABLED
   \<and> calls (requestLocationPermission (Resolved False) foreground fix w)
       = calls w @ [HasServicesEnabled]
   \<and> location (requestLocationPermission (Resolved False) foreground fix w) = location w
   \<and> (status \<noteq> granted \<longrightarrow>
        error (requestLocationPermission (Resolved True) (Resolved status) fix w)
          = Some PERMISSION_DENIED
        \<and> location (requestLocationPermission (Resolved True) (Resolved status) fix w)
          = location w
        \<and> (location w = None \<longrightarrow>
             location (requestLocationPermission (Resolved True) (Resolved status) fix w) = None)
        \<and> calls (requestLocationPermission (Resolved True) (Resolved status) fix w)
          = calls w @ [HasServicesEnabled, RequestForegroundPermissions])
   \<and> requestLocationPermission (Resolved True) (Resolved granted) fix w
       = (getCurrentLocation fix
            (provider_call RequestForegroundPermissions (requestLocationPermission_begin w)))
         \<lparr>isLoading := False\<rparr>
   \<and> calls (requestLocationPermission (Resolved True) (Resolved granted) fix w)
       = calls w @ [HasServicesEnabled, RequestForegroundPermissions, GetCurrentPosition]
   \<and> code LOCATION_DISABLED = ''LOCATION_DISABLED''
   \<and> code PERMISSION_DENIED = ''PERMISSION_DENIED''"
  by (simp add: permission_defs getCurrentLocation_calls provider_call_def
      LOCATION_DISABLED_def PERMISSION_DENIED_def Let_def)

theorem requestLocationPermission_order_and_failures_witness:
  "denied \<noteq> granted
   \<and> location initial = None
   \<and> location (requestLocationPermission (Resolved True) (Resolved denied) Rejected initial) = None
   \<and> error (requestLocationPermission (Resolved True) (Resolved denied) Rejected initial)
       = Some PERMISSION_DENIED
   \<and> calls (requestLocationPermission (Resolved True) (Resolved denied) Rejected initial)
       = [HasServicesEnabled, RequestForegroundPermissions]
   \<and> calls (requestLocationPermission (Resolved False) (Resolved denied) Rejected initial)
       = [HasServicesEnabled]"
  using requestLocationPermission_order_and_failures [of "Resolved denied" Rejected initial denied]
  by (simp add: initial_def)

text \<open>
  Claim C10. \<^verbatim>\<open>requestLocationPermission\<close> clears the error before its first
  provider call: when \<^verbatim>\<open>hasServicesEnabledAsync\<close> is issued the error is
  null. Whatever the three provider calls answer, \<^verbatim>\<open>isLoading\<close> is false when
  the call ends. When the service is enabled, the permission granted and a
  position delivered, the error is null at the end, whatever it was before.
\<close>

theorem requestLocationPermission_clears_error_and_loading:
  "error (requestLocationPermission_begin w) = None
   \<and> calls (requestLocationPermission_begin w) = calls w @ [HasServicesEnabled]
   \<and> isLoading (requestLocationPermission services foreground fix w) = False
   \<and> error (requestLocationPermission (Resolved True) (Resolved granted) (Resolved c) w) = None"
  by (simp add: permission_defs getCurrentLocation_error provider_call_def Let_def
      split: outcome.splits)

theorem requestLocationPermission_clears_error_and_loading_witness:
  "error (requestLocationPermission (Resolved True) (Resolved denied) Rejected initial)
     = Some PERMISSION_DENIED
   \<and> error (requestLocationPermission (Resolved True) (Resolved granted)
        (Resolved \<lparr>coords_latitude = 40, coords_longitude = -73, coords_accuracy = Some 5\<rparr>)
        (requestLocationPermission (Resolved True) (Resolved denied) Rejected initial)) = None
   \<and> isLoading (requestLocationPermission (Resolved True) (Resolved granted)
        (Resolved \<lparr>coords_latitude = 40, coords_longitude = -73, coords_accuracy = Some 5\<rparr>)
        (requestLocationPermission (Resolved True) (Resolved denied) Rejected initial)) = False"
  using requestLocationPermission_clears_error_and_loading
    [of "requestLocationPermission (Resolved True) (Resolved denied) Rejected initial"
        "Resolved True" "Resolved granted"
        "Resolved \<lparr>coords_latitude = 40, coords_longitude = -73, coords_accuracy = Some 5\<rparr>"
        "\<lparr>coords_latitude = 40, coords_longitude = -73, coords_accuracy = Some 5\<rparr>"]
  by (simp add: initial_def permission_defs provider_call_def)

subsection \<open>Position updates and geocode answers\<close>

lemma geocode_answer_frame:
  "geocode_answer r w = w\<lparr>location := location (geocode_answer r w)\<rparr>"
  by (simp add: geocode_answer_def patch_address_def split: outcome.splits list.splits)

text \<open>
  Claim C8. A watch callback replaces the position by a new one, built from
  the coordinates delivered and the clock, whose address is the address of the
  position held before. The answer of a geocode call changes nothing of the
  screen but \<^verbatim>\<open>location\<close>, and of a position held it changes at most the
  address: latitude, longitude, timestamp and accuracy stay as they are; with
  no position held, none appears.
\<close>

theorem position_updates_and_address_patches:
  "location (watchCallback c w) =
     Some \<lparr>latitude = coords_latitude c, longitude = coords_longitude c, timestamp = now w,
       accuracy = or_undefined (coords_accuracy c),
       address = (case location w of None \<Rightarrow> None | Some prev \<Rightarrow> address prev)\<rparr>
   \<and> (location w = Some prev \<longrightarrow>
        map_option address (location (watchCallback c w)) = Some (address prev))
   \<and> geocode_answer r w = w\<lparr>location := location (geocode_answer r w)\<rparr>
   \<and> (location w = None \<longrightarrow> location (geocode_answer r w) = None)
   \<and> (location w = Some p \<longrightarrow>
        map_option latitude (location (geocode_answer r w)) = Some (latitude p)
        \<and> map_option longitude (location (geocode_answer r w)) = Some (longitude p)
        \<and> map_option timestamp (location (geocode_answer r w)) = Some (timestamp p)
        \<and> map_option accuracy (location (geocode_answer r w)) = Some (accuracy p))"
proof -
  have "location (watchCallback c w) =
     Some \<lparr>latitude = coords_latitude c, longitude = coords_longitude c, timestamp = now w,
       accuracy = or_undefined (coords_accuracy c),
       address = (case location w of None \<Rightarrow> None | Some prev \<Rightarrow> address prev)\<rparr>"
    by (simp add: watchCallback_def reverseGeocode_location Let_def)
  moreover have "geocode_answer r w = w\<lparr>location := location (geocode_answer r w)\<rparr>"
    by (rule geocode_answer_frame)
  moreover have "location w = None \<longrightarrow> location (geocode_answer r w) = None"
    by (simp add: geocode_answer_def patch_address_def split: outcome.splits list.splits)
  moreover have "location w = Some p \<longrightarrow>
        map_option latitude (location (geocode_answer r w)) = Some (latitude p)
        \<and> map_option longitude (location (geocode_answer r w)) = Some (longitude p)
        \<and> map_option timestamp (location (geocode_answer r w)) = Some (timestamp p)
        \<and> map_option accuracy (location (geocode_answer r w)) = Some (accuracy p)"
    by (simp add: geocode_answer_def patch_address_def split: outcome.splits list.splits)
  ultimately show ?thesis by simp
qed

theorem position_updates_and_address_patches_witness:
  "location (geocode_answer (Resolved [\<lparr>name = None, street = Some ''Main St'', district = None,
        city = Some ''Springfield'', region = None\<rparr>])
      (watchCallback \<lparr>coords_latitude = 40, coords_longitude = -73, coords_accuracy = Some 5\<rparr>
         initial))
    = Some \<lparr>latitude = 40, longitude = -73, timestamp = 0, accuracy = Some 5,
        address = Some ''Main St, Springfield''\<rparr>
   \<and> location (watchCallback \<lparr>coords_latitude = 41, coords_longitude = -74, coords_accuracy = None\<rparr>
       (geocode_answer (Resolved [\<lparr>name = None, street = Some ''Main St'', district = None,
        city = Some ''Springfield'', region = None\<rparr>])
      (watchCallback \<lparr>coords_latitude = 40, coords_longitude = -73, coords_accuracy = Some 5\<rparr>
         initial)))
    = Some \<lparr>latitude = 41, longitude = -74, timestamp = 0, accuracy = None,
        address = Some ''Main St, Springfield''\<rparr>
   \<and> location initial = None
   \<and> location (geocode_answer Rejected initial) = None"
  using position_updates_and_address_patches
    [of "\<lparr>coords_latitude = 41, coords_longitude = -74, coords_accuracy = None\<rparr>"
        initial
        "\<lparr>latitude = 40, longitude = -73, timestamp = 0, accuracy = Some 5,
            address = Some ''Main St, Springfield''\<rparr>"
        Rejected
        "\<lparr>latitude = 40, longitude = -73, timestamp = 0, accuracy = Some 5,
            address = Some ''Main St, Springfield''\<rparr>"]
  position_updates_and_address_patches
    [of "\<lparr>coords_latitude = 41, coords_longitude = -74, coords_accuracy = None\<rparr>"
        "geocode_answer (Resolved [\<lparr>name = None, street = Some ''Main St'', district = None,
            city = Some ''Springfield'', region = None\<rparr>])
          (watchCallback \<lparr>coords_latitude = 40, coords_longitude = -73, coords_accuracy = Some 5\<rparr>
             initial)"
        "\<lparr>latitude = 40, longitude = -73, timestamp = 0, accuracy = Some 5,
            address = Some ''Main St, Springfield''\<rparr>"
        "Resolved []"
        "\<lparr>latitude = 40, longitude = -73, timestamp = 0, accuracy = Some 5,
            address = Some ''Main St, Springfield''\<rparr>"]
  by (simp add: initial_def watchCallback_def geocode_defs platform_defs or_undefined_def
      formatAddress_def push_if_def Let_def)

text \<open>
  Claim C6 as written asks for the text \<open>Address unavailable\<close> also when the
  provider answers with an empty list. It does not happen: after a first
  position and an empty answer the address is still absent.
\<close>

theorem empty_geocode_result_counterexample:
  "location (geocode_answer (Resolved [])
      (getCurrentLocation (Resolved \<lparr>coords_latitude = 40, coords_longitude = -73,
         coords_accuracy = Some 5\<rparr>) initial))
    = Some \<lparr>latitude = 40, longitude = -73, timestamp = 0, accuracy = Some 5, address = None\<rparr>
   \<and> map_option address (location (geocode_answer (Resolved [])
      (getCurrentLocation (Resolved \<lparr>coords_latitude = 40, coords_longitude = -73,
         coords_accuracy = Some 5\<rparr>) initial)))
    \<noteq> Some (Some ''Address unavailable'')"
  by (simp add: initial_def fix_defs geocode_defs platform_defs Let_def)

text \<open>
  Claim C6, amended. No answer of the geocode provider touches the error. With
  a position held, a failed call writes \<open>Address unavailable\<close> into its
  address, and a list with at least one entry writes the formatted first
  entry; an empty list leaves the screen exactly as it is, by the test of line
  135, which has no other branch. With no position held, none appears.
\<close>

theorem geocode_answer_soft_failure:
  "error (geocode_answer r w) = error w
   \<and> geocode_answer (Resolved []) w = w
   \<and> (location w = Some p \<longrightarrow>
        location (geocode_answer Rejected w) = Some (p\<lparr>address := Some ''Address unavailable''\<rparr>)
        \<and> location (geocode_answer (Resolved (a # as)) w)
            = Some (p\<lparr>address := Some (formatAddress a)\<rparr>))
   \<and> (location w = None \<longrightarrow> location (geocode_answer r w) = None)"
  by (simp add: geocode_answer_def patch_address_def split: outcome.splits list.splits)

theorem geocode_answer_soft_failure_witness:
  "location (getCurrentLocation (Resolved \<lparr>coords_latitude = 40, coords_longitude = -73,
         coords_accuracy = Some 5\<rparr>) initial)
    = Some \<lparr>latitude = 40, longitude = -73, timestamp = 0, accuracy = Some 5, address = None\<rparr>
   \<and> location (geocode_answer Rejected
      (getCurrentLocation (Resolved \<lparr>coords_latitude = 40, coords_longitude = -73,
         coords_accuracy = Some 5\<rparr>) initial))
    = Some \<lparr>latitude = 40, longitude = -73, timestamp = 0, accuracy = Some 5,
        address = Some ''Address unavailable''\<rparr>
   \<and> location (geocode_answer (Resolved [\<lparr>name = None, street = Some ''Main St'',
        district = None, city = Some ''Springfield'', region = None\<rparr>])
      (getCurrentLocation (Resolved \<lparr>coords_latitude = 40, coords_longitude = -73,
         coords_accuracy = Some 5\<rparr>) initial))
    = Some \<lparr>latitude = 40, longitude = -73, timestamp = 0, accuracy = Some 5,
        address = Some ''Main St, Springfield''\<rparr>
   \<and> error (geocode_answer Rejected
      (getCurrentLocation (Resolved \<lparr>coords_latitude = 40, coords_longitude = -73,
         coords_accuracy = Some 5\<rparr>) initial)) = None
   \<and> location initial = None
   \<and> location (geocode_answer Rejected initial) = None"
  using geocode_answer_soft_failure
    [of Rejected "getCurrentLocation (Resolved \<lparr>coords_latitude = 40, coords_longitude = -73,
         coords_accuracy = Some 5\<rparr>) initial"
        "\<lparr>latitude = 40, longitude = -73, timestamp = 0, accuracy = Some 5, address = None\<rparr>"
        "\<lparr>name = None, street = Some ''Main St'', district = None,
          city = Some ''Springfield'', region = None\<rparr>" "[]"]
    geocode_answer_soft_failure
    [of Rejected initial
        "\<lparr>latitude = 40, longitude = -73, timestamp = 0, accuracy = Some 5, address = None\<rparr>"
        "\<lparr>name = None, street = Some ''Main St'', district = None,
          city = Some ''Springfield'', region = None\<rparr>" "[]"]
  by (simp add: initial_def fix_defs geocode_defs platform_defs formatAddress_def push_if_def
      Let_def)

subsection \<open>One tracking session\<close>

lemma one_session_session:
  "session w' = session w \<Longrightarrow> one_session w' = one_session w"
  by (simp add: session_def one_session_def)

lemma session_reverseGeocode: "session (reverseGeocode lat lon w) = session w"
  by (simp add: session_def geocode_defs platform_defs Let_def split: option.splits)

lemma session_getCurrentLocation: "session (getCurrentLocation r w) = session w"
proof (cases r)
  case (Resolved c)
  then show ?thesis
    using session_reverseGeocode by (simp add: session_def fix_defs platform_defs Let_def)
next
  case Rejected
  then show ?thesis by (simp add: session_def fix_defs platform_defs)
qed

lemma session_requestLocationPermission:
  "session (requestLocationPermission services foreground r w) = session w"
proof -
  have "session (getCurrentLocation r v) = session w" if "session v = session w" for v
    using that session_getCurrentLocation [of r v] by simp
  then have "session ((getCurrentLocation r v)\<lparr>isLoading := False\<rparr>) = session w"
    if "session v = session w" for v
    using that by (simp add: session_def)
  then show ?thesis
    by (simp add: permission_defs provider_call_def session_def Let_def split: outcome.splits)
qed

lemma session_watchCallback: "session (watchCallback c w) = session w"
  using session_reverseGeocode by (simp add: watchCallback_def session_def Let_def)

lemma session_fireTimers: "session (fold fireTimer ts w) = session w"
  by (induction ts arbitrary: w) (simp_all add: session_def fireTimer_def provider_call_def)

lemma session_advance: "session (advance dt w) = session w"
  using session_fireTimers by (simp add: advance_def session_def Let_def)

lemma session_geocode_answer: "session (geocode_answer r w) = session w"
  by (simp add: session_def geocode_answer_def patch_address_def split: outcome.splits list.splits)

lemma one_session_stopLocationTracking:
  "one_session w \<Longrightarrow> one_session (stopLocationTracking w)"
  by (auto simp: one_session_def stopLocationTracking_watches stopLocationTracking_cells
      split: option.splits)

lemma one_session_startLocationTracking:
  "one_session w \<Longrightarrow> \<not> isTracking w \<Longrightarrow> one_session (startLocationTracking background watch w)"
  by (auto simp: one_session_def tracking_defs platform_defs Let_def split: outcome.splits)

lemma one_session_handle: "one_session w \<Longrightarrow> one_session (handle e w)"
proof (cases e)
  case (Mount sv fg r)
  then show "one_session w \<Longrightarrow> ?thesis"
    by (simp add: handle_def one_session_session [OF session_requestLocationPermission])
next
  case (PressRetry sv fg r)
  then show "one_session w \<Longrightarrow> ?thesis"
    by (simp add: handle_def one_session_session [OF session_requestLocationPermission])
next
  case (PressPrimary bg wt)
  assume w: "one_session w"
  have "one_session (handleStopTracking w)"
    using one_session_stopLocationTracking [OF w]
    by (simp add: handleStopTracking_def alert_def one_session_def)
  with w PressPrimary show ?thesis
    by (simp add: handle_def one_session_startLocationTracking)
next
  case (PressComplete confirm)
  assume w: "one_session w"
  have a: "one_session (alert t v) = one_session v" for t v
    by (simp add: alert_def one_session_def)
  have "one_session (completeDelivery confirm w)"
    using w one_session_stopLocationTracking [of "alert ''Complete Delivery'' w"]
    by (simp add: completeDelivery_def a Let_def split: option.splits)
  with w PressComplete show ?thesis by (simp add: handle_def)
next
  case (PressRefresh r)
  then show "one_session w \<Longrightarrow> ?thesis"
    by (simp add: handle_def one_session_session [OF session_getCurrentLocation])
next
  case (Position h c)
  then show "one_session w \<Longrightarrow> ?thesis"
    by (simp add: handle_def one_session_session [OF session_watchCallback])
next
  case (Elapse dt)
  then show "one_session w \<Longrightarrow> ?thesis"
    by (simp add: handle_def one_session_session [OF session_advance])
next
  case (GeocodeAnswer r)
  then show "one_session w \<Longrightarrow> ?thesis"
    by (simp add: handle_def one_session_session [OF session_geocode_answer])
qed

lemma one_session_fold: "one_session w \<Longrightarrow> one_session (fold handle es w)"
  by (induction es arbitrary: w) (simp_all add: one_session_handle)

lemma one_session_initial: "one_session initial"
  by (simp add: one_session_def initial_def)

text \<open>
  Claim C1 as written makes \<^verbatim>\<open>startLocationTracking\<close> a no-op while a session
  is active. The function has no such test: called a second time it opens a
  second watch and the ref forgets the first handle.
\<close>

theorem second_start_counterexample:
  "isTracking (startLocationTracking (Resolved granted) (Resolved ()) initial)
   \<and> locationSubscription (startLocationTracking (Resolved granted) (Resolved ()) initial)
       = Some 1
   \<and> watches (startLocationTracking (Resolved granted) (Resolved ()) initial) = [1]
   \<and> locationSubscription (startLocationTracking (Resolved granted) (Resolved ())
        (startLocationTracking (Resolved granted) (Resolved ()) initial)) = Some 2
   \<and> watches (startLocationTracking (Resolved granted) (Resolved ())
        (startLocationTracking (Resolved granted) (Resolved ()) initial)) = [1, 2]"
  by (simp add: initial_def tracking_defs platform_defs Let_def)

text \<open>
  Claim C1, amended. The guard is in the controls of the screen. While
  \<^verbatim>\<open>isTracking\<close> is true the primary button is the stop button: pressing it
  runs \<^verbatim>\<open>handleStopTracking\<close> and issues no provider call. Along every run
  of events from the initial screen, each handler ending before the next
  event, the open watches are exactly the handle held by the ref: there is at
  most one tracking session.
\<close>

theorem one_session_under_controls:
  "one_session (run es initial)
   \<and> length (watches (run es initial)) \<le> 1
   \<and> (isTracking w \<longrightarrow>
        handle (PressPrimary background watch) w = handleStopTracking w
        \<and> calls (handle (PressPrimary background watch) w) = calls w)"
proof -
  have o: "one_session (run es initial)"
    unfolding run_def by (rule one_session_fold [OF one_session_initial])
  then have "length (watches (run es initial)) \<le> 1"
    by (simp add: one_session_def split: option.splits)
  moreover have "calls (handleStopTracking w) = calls w"
    by (simp add: handleStopTracking_def stopLocationTracking_def platform_defs Let_def
        split: option.splits)
  ultimately show ?thesis using o by (simp add: handle_def)
qed

theorem one_session_under_controls_witness:
  "isTracking (run [PressPrimary (Resolved granted) (Resolved ())] initial)
   \<and> watches (run [PressPrimary (Resolved granted) (Resolved ()),
        PressPrimary (Resolved granted) (Resolved ()),
        PressPrimary (Resolved denied) (Resolved ())] initial) = [2]
   \<and> one_session (run [PressPrimary (Resolved granted) (Resolved ()),
        PressPrimary (Resolved granted) (Resolved ()),
        PressPrimary (Resolved denied) (Resolved ())] initial)
   \<and> handle (PressPrimary (Resolved granted) (Resolved ()))
        (run [PressPrimary (Resolved granted) (Resolved ())] initial)
      = handleStopTracking (run [PressPrimary (Resolved granted) (Resolved ())] initial)"
  using one_session_under_controls
    [of "[PressPrimary (Resolved granted) (Resolved ()),
        PressPrimary (Resolved granted) (Resolved ()),
        PressPrimary (Resolved denied) (Resolved ())]"
        "run [PressPrimary (Resolved granted) (Resolved ())] initial"
        "Resolved granted" "Resolved ()"]
  by (simp add: run_def handle_def initial_def tracking_defs handleStopTracking_def
      stopLocationTracking_def platform_defs Let_def)

subsection \<open>One pending timeout\<close>

lemma one_timer_reverseGeocode:
  assumes "one_timer w"
  shows "one_timer (reverseGeocode lat lon w)"
proof -
  have "reverseGeocodeTimeout (reverseGeocode lat lon w) = Some (nextId w)"
    by (simp add: geocode_defs platform_defs Let_def split: option.splits)
  then show ?thesis
    by (simp add: one_timer_def reverseGeocode_timers [OF assms])
qed

lemma one_timer_getCurrentLocation:
  assumes "one_timer w"
  shows "one_timer (getCurrentLocation r w)"
proof (cases r)
  case (Resolved c)
  let ?v = "w\<lparr>isLoading := True, calls := calls w @ [GetCurrentPosition],
    location := Some \<lparr>latitude = coords_latitude c, longitude = coords_longitude c,
      timestamp = now w, accuracy = or_undefined (coords_accuracy c), address = None\<rparr>\<rparr>"
  let ?u = "reverseGeocode (coords_latitude c) (coords_longitude c) ?v"
  have "one_timer ?v" using assms by (simp add: one_timer_def)
  then have "one_timer ?u" by (rule one_timer_reverseGeocode)
  then have "one_timer (?u\<lparr>isLoading := False\<rparr>)" by (simp add: one_timer_def)
  moreover have "getCurrentLocation r w = ?u\<lparr>isLoading := False\<rparr>"
    using Resolved
    by (simp add: getCurrentLocation_def getCurrentLocation_begin_def
        getCurrentLocation_resume_def provider_call_def Let_def)
  ultimately show ?thesis by simp
next
  case Rejected
  with assms show ?thesis by (simp add: fix_defs platform_defs one_timer_def)
qed

lemma one_timer_requestLocationPermission:
  assumes "one_timer w"
  shows "one_timer (requestLocationPermission services foreground r w)"
proof -
  have "one_timer ((getCurrentLocation r v)\<lparr>isLoading := False\<rparr>)" if "one_timer v" for v
    using one_timer_getCurrentLocation [OF that, of r] by (simp add: one_timer_def)
  moreover have "one_timer (w\<lparr>isLoading := True, error := None,
      calls := calls w @ [HasServicesEnabled, RequestForegroundPermissions]\<rparr>)"
    using assms by (simp add: one_timer_def)
  ultimately have "one_timer ((getCurrentLocation r (w\<lparr>isLoading := True, error := None,
      calls := calls w @ [HasServicesEnabled, RequestForegroundPermissions]\<rparr>))
        \<lparr>isLoading := False\<rparr>)"
    by blast
  then show ?thesis
    using assms
    by (simp add: permission_defs provider_call_def Let_def one_timer_def split: outcome.splits)
qed

lemma one_timer_watchCallback:
  assumes "one_timer w"
  shows "one_timer (watchCallback c w)"
  using watchCallback_pending [OF assms] by (rule pending_at_one_timer)

lemma one_timer_fireTimers: "one_timer w \<Longrightarrow> one_timer (fold fireTimer ts w)"
proof (induction ts arbitrary: w)
  case Nil
  then show ?case by simp
next
  case (Cons t ts)
  from one_timer_cases [OF Cons.prems] have "one_timer (fireTimer t w)"
    by (auto simp: one_timer_def fireTimer_def provider_call_def)
  then show ?case using Cons.IH by simp
qed

lemma one_timer_advance: "one_timer w \<Longrightarrow> one_timer (advance dt w)"
  using one_timer_fireTimers [of "w\<lparr>now := now w + dt\<rparr>"]
  by (simp add: advance_def Let_def one_timer_def)

lemma one_timer_stopLocationTracking:
  "one_timer w \<Longrightarrow> one_timer (stopLocationTracking w)"
  by (simp add: one_timer_def [of "stopLocationTracking w"] stopLocationTracking_no_timer)

lemma one_timer_startLocationTracking:
  "one_timer w \<Longrightarrow> one_timer (startLocationTracking background watch w)"
  by (simp add: one_timer_def tracking_defs platform_defs Let_def split: outcome.splits)

lemma one_timer_handle: "one_timer w \<Longrightarrow> one_timer (handle e w)"
proof (cases e)
  case (PressPrimary bg wt)
  assume w: "one_timer w"
  have "one_timer (handleStopTracking w)"
    using one_timer_stopLocationTracking [OF w]
    by (simp add: handleStopTracking_def alert_def one_timer_def)
  with w PressPrimary show ?thesis
    by (simp add: handle_def one_timer_startLocationTracking)
next
  case (PressComplete confirm)
  assume w: "one_timer w"
  have a: "one_timer (alert t v) = one_timer v" for t v
    by (simp add: alert_def one_timer_def)
  have "one_timer (completeDelivery confirm w)"
    using w one_timer_stopLocationTracking [of "alert ''Complete Delivery'' w"]
    by (simp add: completeDelivery_def a Let_def split: option.splits)
  with w PressComplete show ?thesis by (simp add: handle_def)
next
  case (GeocodeAnswer r)
  then show "one_timer w \<Longrightarrow> ?thesis"
    by (simp add: handle_def one_timer_def geocode_answer_def patch_address_def
        split: outcome.splits list.splits)
qed (simp_all add: handle_def one_timer_requestLocationPermission one_timer_getCurrentLocation
    one_timer_watchCallback one_timer_advance)

lemma one_timer_run: "one_timer (run es initial)"
proof -
  have "one_timer w \<Longrightarrow> one_timer (fold handle es w)" for w
    by (induction es arbitrary: w) (simp_all add: one_timer_handle)
  moreover have "one_timer initial" by (simp add: one_timer_def initial_def)
  ultimately show ?thesis by (simp add: run_def)
qed

subsection \<open>The unmount cleanup\<close>

lemma cleanup_settled:
  assumes "one_session w" and "one_timer w"
  shows "watches (cleanup w) = [] \<and> timers (cleanup w) = []
     \<and> locationSubscription (cleanup w) = None \<and> reverseGeocodeTimeout (cleanup w) = None
     \<and> removed (cleanup w) = removed w @ watches w
     \<and> handle (Position h c) (cleanup w) = cleanup w
     \<and> calls (advance dt (cleanup w)) = calls w
     \<and> location (advance dt (cleanup w)) = location w"
proof -
  have c: "cleanup w = stopLocationTracking w"
    by (simp add: cleanup_def stopLocationTracking_cells Let_def)
  have t: "timers (stopLocationTracking w) = []"
    by (rule stopLocationTracking_no_timer [OF assms(2)])
  have w: "watches (stopLocationTracking w) = []"
    using assms(1) by (auto simp: one_session_def stopLocationTracking_watches split: option.splits)
  have r: "removed (stopLocationTracking w) = removed w @ watches w"
    using assms(1) by (auto simp: one_session_def stopLocationTracking_removed split: option.splits)
  have "calls (stopLocationTracking w) = calls w" "location (stopLocationTracking w) = location w"
    by (simp_all add: stopLocationTracking_def platform_defs Let_def split: option.splits)
  with c t w r show ?thesis
    by (simp add: stopLocationTracking_cells handle_def advance_idle)
qed

text \<open>
  Claim C3 fails when the screen unmounts while \<^verbatim>\<open>startLocationTracking\<close>
  waits for \<^verbatim>\<open>watchPositionAsync\<close> (line 188). The cleanup finds the ref
  empty and releases nothing; then the wait ends, the handle is stored and
  the alert is shown; the watch stays open, and its next callback sets the
  position and schedules a timeout that fires a geocode call. In a settled
  screen the cleanup does close everything, see \<open>cleanup_settled\<close>.
\<close>

theorem unmount_while_starting_leaks_watch:
  "locationSubscription (cleanup (startLocationTracking_permitted (Resolved granted)
       (startLocationTracking_begin initial))) = None
   \<and> removed (startLocationTracking_watching (Resolved ())
       (cleanup (startLocationTracking_permitted (Resolved granted)
          (startLocationTracking_begin initial)))) = []
   \<and> watches (startLocationTracking_watching (Resolved ())
       (cleanup (startLocationTracking_permitted (Resolved granted)
          (startLocationTracking_begin initial)))) = [1]
   \<and> locationSubscription (startLocationTracking_watching (Resolved ())
       (cleanup (startLocationTracking_permitted (Resolved granted)
          (startLocationTracking_begin initial)))) = Some 1
   \<and> alerts (startLocationTracking_watching (Resolved ())
       (cleanup (startLocationTracking_permitted (Resolved granted)
          (startLocationTracking_begin initial)))) = [''Tracking Started'']
   \<and> location (handle (Position 1
         \<lparr>coords_latitude = 40, coords_longitude = -73, coords_accuracy = Some 5\<rparr>)
       (startLocationTracking_watching (Resolved ())
         (cleanup (startLocationTracking_permitted (Resolved granted)
            (startLocationTracking_begin initial)))))
     = Some \<lparr>latitude = 40, longitude = -73, timestamp = 0, accuracy = Some 5, address = None\<rparr>
   \<and> calls (advance 1000 (handle (Position 1
         \<lparr>coords_latitude = 40, coords_longitude = -73, coords_accuracy = Some 5\<rparr>)
       (startLocationTracking_watching (Resolved ())
         (cleanup (startLocationTracking_permitted (Resolved granted)
            (startLocationTracking_begin initial))))))
     = [RequestBackgroundPermissions, WatchPosition, ReverseGeocode 40 (-73)]"
  by (simp add: initial_def tracking_defs cleanup_def stopLocationTracking_def handle_def
      watchCallback_def advance_def geocode_defs platform_defs or_undefined_def Let_def)

end
